theory Spec2Isabelle
  imports Complex_Main
begin

section \<open>Data model\<close>

text \<open>
  The three tables of \<^verbatim>\<open>models.py\<close>. A table is the list of its rows in storage order.
  A nullable foreign key is an \<open>int option\<close>, with \<open>None\<close> for SQL NULL. \<open>Team\<close> and
  \<open>Player\<close> both have a column \<open>TeamID\<close> (and \<open>Position\<close>, \<open>Player\<close> a column
  \<open>PositionID\<close>): they are written \<open>team.TeamID\<close> and \<open>player.TeamID\<close>.

  The type \<open>'f\<close> stands for the values of a Python float other than NaN, the two zeros
  taken as one value (they are equal for \<^verbatim>\<open>==\<close>). \<open>Height\<close> is NOT NULL and SQLite stores
  a NaN as NULL, so a stored height is such a value.
\<close>

record team =
  TeamID :: int
  TeamName :: string

record position =
  PositionID :: int
  PositionName :: string

record 'f player =
  PlayerID :: int
  Name :: string
  Age :: int
  Height :: 'f
  TeamID :: "int option"
  PositionID :: "int option"
  Version :: int

record 'f db =
  teams :: "team list"
  positions :: "position list"
  players :: "'f player list"

section \<open>The interpreter\<close>

text \<open>
  A Python float is NaN or a value of \<open>'f\<close>. The conversions \<^verbatim>\<open>int(s)\<close> and \<^verbatim>\<open>float(s)\<close> of
  a string and the float arithmetic of the report belong to the interpreter, not to the
  application: which strings the conversions accept and how sums, quotients and
  \<^verbatim>\<open>round\<close> are rounded is not fixed here. The routes take them as the parameter \<open>P\<close>,
  and what is proved holds for every \<open>P\<close>.
  \<^item> \<open>int_of_str s\<close>, \<open>float_of_str s\<close>: the value of \<^verbatim>\<open>int(s)\<close>, \<^verbatim>\<open>float(s)\<close>, or \<open>None\<close>
    where they raise \<^verbatim>\<open>ValueError\<close>;
  \<^item> \<open>int_truediv a b\<close>: \<^verbatim>\<open>a / b\<close> of two integers, which raises \<^verbatim>\<open>OverflowError\<close> when the
    quotient is too large for a float;
  \<^item> \<open>float_sum xs\<close>: \<^verbatim>\<open>sum(xs)\<close> of floats; \<open>float_truediv x n\<close>: \<^verbatim>\<open>x / n\<close> of a float and
    an integer; \<open>float_round x k\<close>: \<^verbatim>\<open>round(x, k)\<close>.
\<close>

datatype 'f pyfloat = NaN | Float 'f

datatype error =
    BadRequestKeyError string
  | ValueError
  | OverflowError
  | StaleDataError
  | IntegrityError

record 'f python =
  int_of_str :: "string \<Rightarrow> int option"
  float_of_str :: "string \<Rightarrow> 'f pyfloat option"
  int_truediv :: "int \<Rightarrow> int \<Rightarrow> error + 'f pyfloat"
  float_sum :: "'f list \<Rightarrow> 'f pyfloat"
  float_truediv :: "'f pyfloat \<Rightarrow> int \<Rightarrow> 'f pyfloat"
  float_round :: "'f pyfloat \<Rightarrow> nat \<Rightarrow> 'f pyfloat"

definition py_int :: "'f python \<Rightarrow> string \<Rightarrow> error + int" where
  "py_int P s = (case int_of_str P s of None \<Rightarrow> Inl ValueError | Some n \<Rightarrow> Inr n)"

definition py_float :: "'f python \<Rightarrow> string \<Rightarrow> error + 'f pyfloat" where
  "py_float P s = (case float_of_str P s of None \<Rightarrow> Inl ValueError | Some x \<Rightarrow> Inr x)"

section \<open>Requests, responses, exceptions\<close>

text \<open>
  The exceptions above are the ones the routes can meet: a missing key of
  \<^verbatim>\<open>request.form[...]\<close>, an invalid literal for \<^verbatim>\<open>int()\<close> or \<^verbatim>\<open>float()\<close>, an integer that
  SQLite cannot take, the ORM's stale-version error and the database's constraint error.
\<close>

datatype http_method = GET | POST

text \<open>
  A request: \<^verbatim>\<open>request.method\<close>, \<^verbatim>\<open>request.form\<close>, and whether the CSRF token of a
  Flask-WTF form verifies (\<^verbatim>\<open>FlaskForm\<close> checks it in \<^verbatim>\<open>validate_on_submit\<close>).
\<close>

record request =
  request_method :: http_method
  form :: "string \<rightharpoonup> string"
  csrf_valid :: bool

text \<open>
  What a route answers: a redirect (after \<^verbatim>\<open>edit_player\<close> failed, with the flashed
  exception), a rendered template, the 404 of \<^verbatim>\<open>get_or_404\<close>, or the 500 of an exception
  that no handler caught.
\<close>

datatype response =
    Redirect_index
  | Redirect_remove_teams
  | Redirect_edit_player int error
  | Render string
  | Abort_404
  | Internal_Server_Error error

definition try_bind :: "error + 'a \<Rightarrow> ('a \<Rightarrow> error + 'b) \<Rightarrow> error + 'b" where
  "try_bind r f = (case r of Inl e \<Rightarrow> Inl e | Inr x \<Rightarrow> f x)"

definition getitem :: "(string \<rightharpoonup> string) \<Rightarrow> string \<Rightarrow> error + string" where
  \<comment> \<open>\<^verbatim>\<open>request.form[key]\<close>\<close>
  "getitem f key = (case f key of None \<Rightarrow> Inl (BadRequestKeyError key) | Some v \<Rightarrow> Inr v)"

section \<open>The database and the ORM session\<close>

text \<open>
  An INTEGER of SQLite has 64 bits: binding a Python integer outside this range to a
  statement raises \<^verbatim>\<open>OverflowError\<close> before the statement runs.
\<close>

definition sqlite_int :: "int \<Rightarrow> bool" where
  "sqlite_int n \<longleftrightarrow> - (2 ^ 63) \<le> n \<and> n < 2 ^ 63"

text \<open>
  \<^verbatim>\<open>Player.query.get_or_404(player_id)\<close> selects the row by primary key.
\<close>

definition query_get :: "'f player list \<Rightarrow> int \<Rightarrow> 'f player option" where
  "query_get rows player_id = find (\<lambda>r. PlayerID r = player_id) rows"

text \<open>
  \<^verbatim>\<open>models.py\<close> sets \<^verbatim>\<open>version_id_col\<close> and no generator, so SQLAlchemy uses its default
  \<^verbatim>\<open>lambda version: (version or 0) + 1\<close>. It is called with \<^verbatim>\<open>None\<close> for an INSERT and with
  the loaded version for an UPDATE.
\<close>

definition version_id_generator :: "int option \<Rightarrow> int" where
  "version_id_generator version = (case version of None \<Rightarrow> 0 | Some v \<Rightarrow> v) + 1"

text \<open>
  The five attributes that \<^verbatim>\<open>edit_player\<close> assigns to the loaded object. The height is
  whatever \<^verbatim>\<open>float()\<close> returned, a NaN included.
\<close>

record 'f assignment =
  new_Name :: string
  new_Age :: int
  new_Height :: "'f pyfloat"
  new_TeamID :: int
  new_PositionID :: int

text \<open>
  \<^verbatim>\<open>db.session.commit()\<close> after the assignments. The unit of work compares each assigned
  attribute with the value it was loaded with (\<^verbatim>\<open>==\<close>; a NaN is equal to nothing). Without
  a net change it emits no statement. Otherwise it emits
  \<^verbatim>\<open>UPDATE player SET <changed columns>, Version=? WHERE PlayerID=? AND Version=?\<close>
  with the loaded version in the WHERE clause:
  \<^item> binding raises \<^verbatim>\<open>OverflowError\<close> when one of its integers is outside 64 bits;
  \<^item> a NaN height is bound as NULL, so a row that matches violates NOT NULL
    (\<^verbatim>\<open>IntegrityError\<close>);
  \<^item> the ORM raises \<^verbatim>\<open>StaleDataError\<close> unless exactly one row matched.
  SQLite does not enforce the foreign keys (the application never turns
  \<^verbatim>\<open>PRAGMA foreign_keys\<close> on).
\<close>

definition net_change :: "'f player \<Rightarrow> 'f assignment \<Rightarrow> bool" where
  "net_change loaded new \<longleftrightarrow>
     new_Name new \<noteq> Name loaded \<or> new_Age new \<noteq> Age loaded \<or>
     new_Height new \<noteq> Float (Height loaded) \<or>
     Some (new_TeamID new) \<noteq> player.TeamID loaded \<or>
     Some (new_PositionID new) \<noteq> player.PositionID loaded"

definition bound_ints :: "'f player \<Rightarrow> 'f assignment \<Rightarrow> int list" where
  "bound_ints loaded new =
     (if new_Age new \<noteq> Age loaded then [new_Age new] else []) @
     (if Some (new_TeamID new) \<noteq> player.TeamID loaded then [new_TeamID new] else []) @
     (if Some (new_PositionID new) \<noteq> player.PositionID loaded then [new_PositionID new]
      else []) @
     [version_id_generator (Some (Version loaded)), PlayerID loaded, Version loaded]"

definition update_row :: "'f player \<Rightarrow> 'f assignment \<Rightarrow> 'f player \<Rightarrow> 'f player" where
  "update_row loaded new r =
     r\<lparr>Name := (if new_Name new \<noteq> Name loaded then new_Name new else Name r),
       Age := (if new_Age new \<noteq> Age loaded then new_Age new else Age r),
       Height := (case new_Height new of
                    Float h \<Rightarrow> if h \<noteq> Height loaded then h else Height r
                  | NaN \<Rightarrow> Height r),
       player.TeamID :=
         (if Some (new_TeamID new) \<noteq> player.TeamID loaded then Some (new_TeamID new)
          else player.TeamID r),
       player.PositionID :=
         (if Some (new_PositionID new) \<noteq> player.PositionID loaded
          then Some (new_PositionID new) else player.PositionID r),
       Version := version_id_generator (Some (Version loaded))\<rparr>"

definition where_pk_version :: "'f player \<Rightarrow> 'f player \<Rightarrow> bool" where
  "where_pk_version loaded r \<longleftrightarrow> PlayerID r = PlayerID loaded \<and> Version r = Version loaded"

definition commit_update :: "'f db \<Rightarrow> 'f player \<Rightarrow> 'f assignment \<Rightarrow> error + 'f db" where
  "commit_update d loaded new =
     (if \<not> net_change loaded new then Inr d
      else if \<not> list_all sqlite_int (bound_ints loaded new) then Inl OverflowError
      else if new_Height new = NaN \<and> filter (where_pk_version loaded) (players d) \<noteq> []
           then Inl IntegrityError
      else if length (filter (where_pk_version loaded) (players d)) \<noteq> 1
           then Inl StaleDataError
      else Inr (d\<lparr>players :=
                   map (\<lambda>r. if where_pk_version loaded r then update_row loaded new r else r)
                     (players d)\<rparr>))"

text \<open>An INSERT without a primary key value takes the largest rowid plus one.\<close>

definition next_rowid :: "int list \<Rightarrow> int" where
  "next_rowid ids = (if ids = [] then 1 else Max (set ids) + 1)"

section \<open>Edit player\<close>

text \<open>
  The five assignments of the \<^verbatim>\<open>try\<close> block, in the source's order: the values assigned,
  or the first exception. All five form fields are read with \<^verbatim>\<open>request.form[...]\<close>, which
  raises on a missing key.
\<close>

definition assigned :: "'f python \<Rightarrow> request \<Rightarrow> error + 'f assignment" where
  "assigned P req =
     try_bind (getitem (form req) ''name'') (\<lambda>name.
     try_bind (try_bind (getitem (form req) ''age'') (py_int P)) (\<lambda>age.
     try_bind (try_bind (getitem (form req) ''height'') (py_float P)) (\<lambda>height.
     try_bind (try_bind (getitem (form req) ''team'') (py_int P)) (\<lambda>team.
     try_bind (try_bind (getitem (form req) ''position'') (py_int P)) (\<lambda>position.
       Inr \<lparr>new_Name = name, new_Age = age, new_Height = height,
            new_TeamID = team, new_PositionID = position\<rparr>)))))"

text \<open>
  The \<^verbatim>\<open>try\<close> block: the assignments, then the commit. \<open>player\<close> is the row as it was
  loaded at the top of the route, \<open>d\<close> the store at the time of the commit.
\<close>

definition edit_player_try ::
  "'f python \<Rightarrow> 'f db \<Rightarrow> 'f player \<Rightarrow> request \<Rightarrow> error + 'f db" where
  "edit_player_try P d player req = try_bind (assigned P req) (commit_update d player)"

text \<open>
  The route after the player was loaded. The \<^verbatim>\<open>except\<close> branch rolls back, flashes the
  exception and redirects to the edit page; the store stays \<open>d\<close>.
\<close>

definition edit_player_loaded ::
  "'f python \<Rightarrow> 'f db \<Rightarrow> int \<Rightarrow> 'f player \<Rightarrow> request \<Rightarrow> response \<times> 'f db" where
  "edit_player_loaded P d player_id player req =
     (if request_method req = POST then
        (case edit_player_try P d player req of
           Inr d' \<Rightarrow> (Redirect_index, d')
         | Inl e \<Rightarrow> (Redirect_edit_player player_id e, d))
      else (Render ''edit_player.html'', d))"

text \<open>
  The route. The SELECT of \<^verbatim>\<open>get_or_404\<close> binds \<open>player_id\<close>, outside the \<^verbatim>\<open>try\<close> block.
\<close>

definition edit_player :: "'f python \<Rightarrow> 'f db \<Rightarrow> int \<Rightarrow> request \<Rightarrow> response \<times> 'f db" where
  "edit_player P d player_id req =
     (if \<not> sqlite_int player_id then (Internal_Server_Error OverflowError, d)
      else case query_get (players d) player_id of
             None \<Rightarrow> (Abort_404, d)
           | Some player \<Rightarrow> edit_player_loaded P d player_id player req)"

section \<open>Add player, add team\<close>

text \<open>
  WTForms validation. \<^verbatim>\<open>InputRequired\<close> wants the field present and non-empty;
  \<^verbatim>\<open>IntegerField\<close> and \<^verbatim>\<open>FloatField\<close> want \<^verbatim>\<open>int()\<close> and \<^verbatim>\<open>float()\<close> to succeed; a
  \<^verbatim>\<open>SelectField\<close> with \<^verbatim>\<open>coerce=int\<close> wants the coerced value to be the value of one of its
  choices.
\<close>

definition input_required :: "(string \<rightharpoonup> string) \<Rightarrow> string \<Rightarrow> string option" where
  "input_required f key = (case f key of None \<Rightarrow> None | Some v \<Rightarrow> if v = [] then None else Some v)"

definition select_field ::
  "'f python \<Rightarrow> (string \<rightharpoonup> string) \<Rightarrow> string \<Rightarrow> (int \<times> string) list \<Rightarrow> int option" where
  "select_field P f key choices =
     (case f key of
        None \<Rightarrow> None
      | Some v \<Rightarrow> (case py_int P v of
                     Inl e \<Rightarrow> None
                   | Inr n \<Rightarrow> if n \<in> set (map fst choices) then Some n else None))"

definition field_of :: "(string \<Rightarrow> error + 'a) \<Rightarrow> (string \<rightharpoonup> string) \<Rightarrow> string \<Rightarrow> 'a option" where
  "field_of conv f key =
     (case input_required f key of
        None \<Rightarrow> None
      | Some v \<Rightarrow> (case conv v of Inl e \<Rightarrow> None | Inr x \<Rightarrow> Some x))"

definition PlayerForm_validate ::
  "'f python \<Rightarrow> request \<Rightarrow> (int \<times> string) list \<Rightarrow> (int \<times> string) list \<Rightarrow>
     (string \<times> int \<times> 'f pyfloat \<times> int \<times> int) option" where
  "PlayerForm_validate P req team_choices position_choices =
     (if request_method req = POST \<and> csrf_valid req then
        (case (input_required (form req) ''name'', field_of (py_int P) (form req) ''age'',
               field_of (py_float P) (form req) ''height'',
               select_field P (form req) ''team'' team_choices,
               select_field P (form req) ''position'' position_choices) of
           (Some name, Some age, Some height, Some team, Some position) \<Rightarrow>
             Some (name, age, height, team, position)
         | _ \<Rightarrow> None)
      else None)"

text \<open>
  The INSERT binds the integers (\<^verbatim>\<open>OverflowError\<close> outside 64 bits) and the height (a NaN
  as NULL, which violates NOT NULL); \<^verbatim>\<open>add_player\<close> catches neither exception. The new
  row gets the next rowid, and the version the mapper generates for an INSERT.
\<close>

definition add_player :: "'f python \<Rightarrow> 'f db \<Rightarrow> request \<Rightarrow> response \<times> 'f db" where
  "add_player P d req =
     (let team_choices = map (\<lambda>t. (team.TeamID t, TeamName t)) (teams d);
          position_choices = map (\<lambda>p. (position.PositionID p, PositionName p)) (positions d)
      in case PlayerForm_validate P req team_choices position_choices of
           Some (name, age, height, team, position) \<Rightarrow>
             if \<not> list_all sqlite_int [age, team, position, version_id_generator None]
             then (Internal_Server_Error OverflowError, d)
             else (case height of
                     NaN \<Rightarrow> (Internal_Server_Error IntegrityError, d)
                   | Float h \<Rightarrow>
                       (Redirect_index,
                        d\<lparr>players := players d @
                             [\<lparr>PlayerID = next_rowid (map PlayerID (players d)),
                               Name = name, Age = age, Height = h,
                               player.TeamID = Some team, player.PositionID = Some position,
                               Version = version_id_generator None\<rparr>]\<rparr>))
         | None \<Rightarrow> (Render ''add_player.html'', d))"

definition TeamForm_validate :: "request \<Rightarrow> string option" where
  "TeamForm_validate req =
     (if request_method req = POST \<and> csrf_valid req
      then input_required (form req) ''team_name''
      else None)"

text \<open>
  \<^verbatim>\<open>TeamName\<close> is UNIQUE: the INSERT of a second team of the same name raises
  \<^verbatim>\<open>IntegrityError\<close> in the commit, which \<^verbatim>\<open>add_team\<close> does not catch.
\<close>

definition add_team :: "'f db \<Rightarrow> request \<Rightarrow> response \<times> 'f db" where
  "add_team d req =
     (case TeamForm_validate req of
        Some team_name \<Rightarrow>
          if team_name \<in> set (map TeamName (teams d))
          then (Internal_Server_Error IntegrityError, d)
          else (Redirect_index,
                d\<lparr>teams := teams d @
                     [\<lparr>team.TeamID = next_rowid (map team.TeamID (teams d)),
                       TeamName = team_name\<rparr>]\<rparr>)
      | None \<Rightarrow> (Render ''add_team.html'', d))"

section \<open>Delete team\<close>

text \<open>
  Two raw statements in one transaction, each binding \<open>team_id\<close>; the route catches no
  exception. \<^verbatim>\<open>TeamID = :team_id\<close> is not true of a row whose \<^verbatim>\<open>TeamID\<close> is NULL.
\<close>

definition delete_team :: "'f db \<Rightarrow> int \<Rightarrow> response \<times> 'f db" where
  "delete_team d team_id =
     (if \<not> sqlite_int team_id then (Internal_Server_Error OverflowError, d)
      else (Redirect_remove_teams,
            d\<lparr>players := filter (\<lambda>p. player.TeamID p \<noteq> Some team_id) (players d),
              teams := filter (\<lambda>t. team.TeamID t \<noteq> team_id) (teams d)\<rparr>))"

section \<open>Report\<close>

text \<open>
  A filter of the form: absent, empty or \<^verbatim>\<open>"all"\<close> gives no condition; anything else goes
  through \<^verbatim>\<open>int()\<close>.
\<close>

definition filter_param :: "'f python \<Rightarrow> string option \<Rightarrow> error + int option" where
  "filter_param P selected =
     (case selected of
        None \<Rightarrow> Inr None
      | Some s \<Rightarrow> if s \<noteq> [] \<and> s \<noteq> ''all'' then try_bind (py_int P s) (\<lambda>n. Inr (Some n))
                  else Inr None)"

definition sql_where :: "int option \<Rightarrow> int option \<Rightarrow> 'f player \<Rightarrow> bool" where
  "sql_where team_id position_id p \<longleftrightarrow>
     (case team_id of None \<Rightarrow> True | Some t \<Rightarrow> player.TeamID p = Some t) \<and>
     (case position_id of None \<Rightarrow> True | Some q \<Rightarrow> player.PositionID p = Some q)"

definition params :: "int option \<Rightarrow> int option \<Rightarrow> int list" where
  "params team_id position_id =
     (case team_id of None \<Rightarrow> [] | Some t \<Rightarrow> [t]) @
     (case position_id of None \<Rightarrow> [] | Some q \<Rightarrow> [q])"

text \<open>
  The query of the route: both conversions, then the SELECT with its parameters bound.
  \<open>Inl\<close> is the exception that ends the request (no handler catches it).
\<close>

definition report_query :: "'f python \<Rightarrow> 'f db \<Rightarrow> request \<Rightarrow> error + 'f player list" where
  "report_query P d req =
     try_bind (filter_param P (form req ''team'')) (\<lambda>team_id.
     try_bind (filter_param P (form req ''position'')) (\<lambda>position_id.
       if \<not> list_all sqlite_int (params team_id position_id) then Inl OverflowError
       else Inr (filter (sql_where team_id position_id) (players d))))"

text \<open>
  The statistics: a number is the integer \<^verbatim>\<open>0\<close> of the \<^verbatim>\<open>else\<close> branch or a float.
\<close>

datatype 'f pynum = Py_int int | Py_float "'f pyfloat"

record 'f stats =
  total :: nat
  avg_age :: "'f pynum"
  avg_height :: "'f pynum"

definition report_stats :: "'f python \<Rightarrow> 'f player list \<Rightarrow> error + 'f stats" where
  "report_stats P rows =
     (if rows \<noteq> [] then
        (let ages = map Age rows; heights = map Height rows
         in try_bind (int_truediv P (sum_list ages) (int (length ages))) (\<lambda>mean_age.
              Inr \<lparr>total = length rows,
                   avg_age = Py_float (float_round P mean_age 2),
                   avg_height =
                     Py_float (float_round P
                       (float_truediv P (float_sum P heights) (int (length heights))) 2)\<rparr>))
      else Inr \<lparr>total = 0, avg_age = Py_int 0, avg_height = Py_int 0\<rparr>)"

text \<open>
  The route; on GET the template gets \<^verbatim>\<open>players=None\<close> and \<^verbatim>\<open>stats={}\<close>.
\<close>

definition report ::
  "'f python \<Rightarrow> 'f db \<Rightarrow> request \<Rightarrow> error + ('f player list option \<times> 'f stats option)" where
  "report P d req =
     (if request_method req = POST then
        try_bind (report_query P d req) (\<lambda>rows.
        try_bind (report_stats P rows) (\<lambda>st. Inr (Some rows, Some st)))
      else Inr (None, None))"

section \<open>An interpretation for the examples\<close>

text \<open>
  The examples below need values for the interpreter's functions. This interpretation
  takes rationals for the floats. Where its conversions give a value, Python gives the
  same value; the strings that the examples need rejected (the empty string, \<^verbatim>\<open>abc\<close>,
  \<^verbatim>\<open>x1\<close>) Python rejects too. It makes no claim beyond that:
  \<^item> \<open>example_int\<close> accepts 1 to 30 decimal digits and nothing else (\<^verbatim>\<open>int()\<close> accepts more,
    a sign for instance);
  \<^item> \<open>example_float\<close> accepts \<^verbatim>\<open>nan\<close> and 1 to 9 digits followed by \<^verbatim>\<open>.0\<close> or \<^verbatim>\<open>.5\<close>, which
    are floats exactly;
  \<^item> the arithmetic is exact, which is Python's result where every value that occurs is
    a float, as the whole and half numbers of the examples are.
\<close>

definition is_digit :: "char \<Rightarrow> bool" where
  "is_digit c \<longleftrightarrow> c \<in> set ''0123456789''"

definition digit_val :: "char \<Rightarrow> nat" where
  "digit_val c = of_char c - 48"

definition decimal :: "string \<Rightarrow> nat" where
  "decimal s = foldl (\<lambda>a c. 10 * a + digit_val c) 0 s"

definition example_int :: "string \<Rightarrow> int option" where
  "example_int s =
     (if s \<noteq> [] \<and> length s \<le> 30 \<and> list_all is_digit s then Some (int (decimal s)) else None)"

definition example_float :: "string \<Rightarrow> rat pyfloat option" where
  "example_float s =
     (if s = ''nan'' then Some NaN
      else let ip = takeWhile (\<lambda>c. c \<noteq> CHR ''.'') s;
               fp = dropWhile (\<lambda>c. c \<noteq> CHR ''.'') s
           in if ip \<noteq> [] \<and> length ip \<le> 9 \<and> list_all is_digit ip \<and> (fp = ''.0'' \<or> fp = ''.5'')
              then Some (Float (of_nat (decimal ip) + (if fp = ''.5'' then 1 / 2 else 0)))
              else None)"

definition example_round :: "rat pyfloat \<Rightarrow> nat \<Rightarrow> rat pyfloat" where
  "example_round x ndigits =
     (case x of
        NaN \<Rightarrow> NaN
      | Float q \<Rightarrow>
          (let y = q * 10 ^ ndigits; f = \<lfloor>y\<rfloor>; r = y - of_int f
           in Float (of_int (if r < 1 / 2 then f else if 1 / 2 < r then f + 1
                             else if even f then f else f + 1) / 10 ^ ndigits)))"

definition example_python :: "rat python" where
  "example_python =
     \<lparr>int_of_str = example_int,
      float_of_str = example_float,
      int_truediv = (\<lambda>a b. Inr (Float (of_int a / of_int b))),
      float_sum = (\<lambda>xs. Float (sum_list xs)),
      float_truediv = (\<lambda>x n. case x of NaN \<Rightarrow> NaN | Float q \<Rightarrow> Float (q / of_int n)),
      float_round = example_round\<rparr>"

section \<open>Example stores and requests\<close>

text \<open>
  The store of the specification's scenario: team A, positions Forward and Midfielder,
  players n1 and n2.
\<close>

definition n1 :: "rat player" where
  "n1 = \<lparr>PlayerID = 1, Name = ''n1'', Age = 20, Height = 70,
         player.TeamID = Some 1, player.PositionID = Some 1, Version = 1\<rparr>"

definition n2 :: "rat player" where
  "n2 = \<lparr>PlayerID = 2, Name = ''n2'', Age = 22, Height = 68,
         player.TeamID = Some 1, player.PositionID = Some 2, Version = 1\<rparr>"

definition scenario_db :: "rat db" where
  "scenario_db =
     \<lparr>teams = [\<lparr>team.TeamID = 1, TeamName = ''A''\<rparr>],
      positions = [\<lparr>position.PositionID = 1, PositionName = ''Forward''\<rparr>,
                   \<lparr>position.PositionID = 2, PositionName = ''Midfielder''\<rparr>],
      players = [n1, n2]\<rparr>"

definition post :: "(string \<times> string) list \<Rightarrow> request" where
  "post items = \<lparr>request_method = POST, form = map_of items, csrf_valid = True\<rparr>"

text \<open>Two teams; player n4 has no team and no position.\<close>

definition league_db :: "rat db" where
  "league_db =
     \<lparr>teams = [\<lparr>team.TeamID = 1, TeamName = ''A''\<rparr>, \<lparr>team.TeamID = 2, TeamName = ''B''\<rparr>],
      positions = [\<lparr>position.PositionID = 1, PositionName = ''Forward''\<rparr>],
      players = [n1, n2,
        \<lparr>PlayerID = 3, Name = ''n3'', Age = 30, Height = 72,
         player.TeamID = Some 2, player.PositionID = Some 1, Version = 1\<rparr>,
        \<lparr>PlayerID = 4, Name = ''n4'', Age = 31, Height = 71,
         player.TeamID = None, player.PositionID = None, Version = 1\<rparr>]\<rparr>"

text \<open>A third player for the scenario, and the form that creates it.\<close>

definition n3 :: "rat player" where
  "n3 = \<lparr>PlayerID = 3, Name = ''n3'', Age = 25, Height = 143 / 2,
         player.TeamID = Some 1, player.PositionID = Some 2, Version = 1\<rparr>"

definition n3_form :: "(string \<times> string) list" where
  "n3_form = [(''name'', ''n3''), (''age'', ''25''), (''height'', ''71.5''),
              (''team'', ''1''), (''position'', ''2'')]"

text \<open>
  A form with the stored values of n1, and forms that edit n1's age and team.
\<close>

definition n1_form :: "(string \<times> string) list" where
  "n1_form = [(''name'', ''n1''), (''age'', ''20''), (''height'', ''70.0''),
              (''team'', ''1''), (''position'', ''1'')]"

definition n1_edit :: "string \<Rightarrow> string \<Rightarrow> (string \<times> string) list" where
  "n1_edit age team = [(''name'', ''n1''), (''age'', age), (''height'', ''70.0''),
                       (''team'', team), (''position'', ''1'')]"

text \<open>
  The scenario after n1 was edited to the team 999, which does not exist.
\<close>

definition dangling_db :: "rat db" where
  "dangling_db = scenario_db\<lparr>players := [n1\<lparr>player.TeamID := Some 999, Version := 2\<rparr>, n2]\<rparr>"

section \<open>The specification's words\<close>



section \<open>Evaluation rules\<close>

lemmas example_defs =
  example_python_def example_int_def example_float_def is_digit_def decimal_def digit_val_def
  py_int_def py_float_def

lemma example_values:
  "py_int example_python ''1'' = Inr 1" "py_int example_python ''2'' = Inr 2"
  "py_int example_python ''3'' = Inr 3" "py_int example_python ''7'' = Inr 7"
  "py_int example_python ''20'' = Inr 20" "py_int example_python ''21'' = Inr 21"
  "py_int example_python ''23'' = Inr 23" "py_int example_python ''25'' = Inr 25"
  "py_int example_python ''999'' = Inr 999"
  "py_int example_python ''9223372036854775808'' = Inr 9223372036854775808"
  "py_int example_python ''abc'' = Inl ValueError" "py_int example_python ''x1'' = Inl ValueError"
  "py_int example_python [] = Inl ValueError"
  "py_float example_python ''70.0'' = Inr (Float 70)"
  "py_float example_python ''71.5'' = Inr (Float (143 / 2))"
  by (simp_all add: example_defs)

lemma sqlite_values:
  "sqlite_int 1" "sqlite_int 2" "sqlite_int 3" "sqlite_int 7" "sqlite_int 20" "sqlite_int 21"
  "sqlite_int 23" "sqlite_int 25" "sqlite_int 999" "\<not> sqlite_int 9223372036854775808"
  by (simp_all add: sqlite_int_def)

lemmas route_defs =
  edit_player_def edit_player_loaded_def edit_player_try_def assigned_def getitem_def
  try_bind_def commit_update_def net_change_def bound_ints_def where_pk_version_def
  update_row_def version_id_generator_def query_get_def post_def

section \<open>Report: the result set\<close>










section \<open>Report: the statistics\<close>

text \<open>
  What can be said of the statistics without the float arithmetic: \<open>total\<close> is the number
  of rows, and with no row all three are the integer 0.
\<close>

lemma report_stats_total: "report_stats P rows = Inr st \<Longrightarrow> total st = length rows"
  by (auto simp: report_stats_def try_bind_def Let_def split: if_splits sum.splits)

lemma report_stats_empty:
  "report_stats P [] = Inr \<lparr>total = 0, avg_age = Py_int 0, avg_height = Py_int 0\<rparr>"
  by (simp add: report_stats_def)

lemma report_total:
  "report P d req = Inr (Some rows, Some st) \<Longrightarrow> total st = length rows"
  by (auto simp: report_def try_bind_def report_stats_total split: if_splits sum.splits)

lemma report_no_match:
  "report P d req = Inr (Some [], Some st) \<Longrightarrow>
   st = \<lparr>total = 0, avg_age = Py_int 0, avg_height = Py_int 0\<rparr>"
  by (auto simp: report_def try_bind_def report_stats_empty split: if_splits sum.splits)

section \<open>Report: filter tokens\<close>
















section \<open>Delete team\<close>

lemma delete_team_in_range:
  assumes "sqlite_int team_id"
  shows "delete_team d team_id =
           (Redirect_remove_teams,
            d\<lparr>players := filter (\<lambda>p. player.TeamID p \<noteq> Some team_id) (players d),
              teams := filter (\<lambda>t. team.TeamID t \<noteq> team_id) (teams d)\<rparr>)"
  using assms by (simp add: delete_team_def)

lemma db_update_same:
  "d\<lparr>players := ps, teams := ts\<rparr> = d \<longleftrightarrow> ps = players d \<and> ts = teams d"
  by (cases d) auto

lemma delete_team_dangling:
  "delete_team dangling_db 999 = (Redirect_remove_teams, scenario_db\<lparr>players := [n2]\<rparr>)"
  by (simp add: delete_team_def sqlite_values dangling_db_def scenario_db_def n1_def n2_def)

lemma delete_team_large_id:
  "delete_team scenario_db 9223372036854775808 =
     (Internal_Server_Error OverflowError, scenario_db)"
  by (simp add: delete_team_def sqlite_values)

text \<open>
  In the store where n1 was edited to the team 999, no team has the id 999, and deleting
  the team 999 deletes n1. Deleting the team \<open>2\<^sup>6\<^sup>3\<close>, which does not exist, is an error.
\<close>

theorem delete_team_dangling_counterexample:
  "map team.TeamID (teams dangling_db) = [1] \<and>
   players dangling_db = [n1\<lparr>player.TeamID := Some 999, Version := 2\<rparr>, n2] \<and>
   delete_team dangling_db 999 = (Redirect_remove_teams, scenario_db\<lparr>players := [n2]\<rparr>) \<and>
   delete_team scenario_db 9223372036854775808 =
     (Internal_Server_Error OverflowError, scenario_db)"
  using delete_team_dangling delete_team_large_id
  by (simp add: dangling_db_def scenario_db_def)

text \<open>
  C8, amended. For every team id within the 64 bits of SQLite, deleting that team answers
  with the redirect, never with an error; it removes every player whose team reference is
  that id and the team itself, and keeps every other player and team as it was (and the
  positions); the store is left as it was exactly when no team has the id and no player
  refers to it. For an id outside the 64 bits the request fails with \<^verbatim>\<open>OverflowError\<close> and
  the store is unchanged.
\<close>

theorem delete_team_cascade:
  "(sqlite_int team_id \<longrightarrow>
      fst (delete_team d team_id) = Redirect_remove_teams \<and>
      players (snd (delete_team d team_id)) =
        filter (\<lambda>p. player.TeamID p \<noteq> Some team_id) (players d) \<and>
      (\<forall>p \<in> set (players (snd (delete_team d team_id))). player.TeamID p \<noteq> Some team_id) \<and>
      (\<forall>p \<in> set (players d).
         player.TeamID p \<noteq> Some team_id \<longrightarrow>
           p \<in> set (players (snd (delete_team d team_id)))) \<and>
      (\<forall>t \<in> set (teams (snd (delete_team d team_id))). team.TeamID t \<noteq> team_id) \<and>
      (\<forall>t \<in> set (teams d).
         team.TeamID t \<noteq> team_id \<longrightarrow> t \<in> set (teams (snd (delete_team d team_id)))) \<and>
      positions (snd (delete_team d team_id)) = positions d \<and>
      (snd (delete_team d team_id) = d \<longleftrightarrow>
         (\<forall>t \<in> set (teams d). team.TeamID t \<noteq> team_id) \<and>
         (\<forall>p \<in> set (players d). player.TeamID p \<noteq> Some team_id))) \<and>
   (\<not> sqlite_int team_id \<longrightarrow>
      delete_team d team_id = (Internal_Server_Error OverflowError, d))"
proof (intro conjI impI)
  assume "\<not> sqlite_int team_id"
  then show "delete_team d team_id = (Internal_Server_Error OverflowError, d)"
    by (simp add: delete_team_def)
next
  assume r: "sqlite_int team_id"
  note e = delete_team_in_range [OF r, of d]
  show "fst (delete_team d team_id) = Redirect_remove_teams"
    by (simp add: e)
  show "players (snd (delete_team d team_id)) =
        filter (\<lambda>p. player.TeamID p \<noteq> Some team_id) (players d)"
    by (simp add: e)
  show "\<forall>p \<in> set (players (snd (delete_team d team_id))). player.TeamID p \<noteq> Some team_id"
    by (simp add: e)
  show "\<forall>p \<in> set (players d).
         player.TeamID p \<noteq> Some team_id \<longrightarrow> p \<in> set (players (snd (delete_team d team_id)))"
    by (simp add: e)
  show "\<forall>t \<in> set (teams (snd (delete_team d team_id))). team.TeamID t \<noteq> team_id"
    by (simp add: e)
  show "\<forall>t \<in> set (teams d).
         team.TeamID t \<noteq> team_id \<longrightarrow> t \<in> set (teams (snd (delete_team d team_id)))"
    by (simp add: e)
  show "positions (snd (delete_team d team_id)) = positions d"
    by (simp add: e)
  show "snd (delete_team d team_id) = d \<longleftrightarrow>
         (\<forall>t \<in> set (teams d). team.TeamID t \<noteq> team_id) \<and>
         (\<forall>p \<in> set (players d). player.TeamID p \<noteq> Some team_id)"
    by (auto simp: e db_update_same filter_id_conv)
qed

theorem delete_team_cascade_witness:
  "delete_team league_db 1 =
     (Redirect_remove_teams,
      league_db\<lparr>players :=
          [\<lparr>PlayerID = 3, Name = ''n3'', Age = 30, Height = 72,
            player.TeamID = Some 2, player.PositionID = Some 1, Version = 1\<rparr>,
           \<lparr>PlayerID = 4, Name = ''n4'', Age = 31, Height = 71,
            player.TeamID = None, player.PositionID = None, Version = 1\<rparr>],
        teams := [\<lparr>team.TeamID = 2, TeamName = ''B''\<rparr>]\<rparr>) \<and>
   snd (delete_team league_db 7) = league_db \<and>
   delete_team league_db 9223372036854775808 =
     (Internal_Server_Error OverflowError, league_db)"
proof -
  have 1: "snd (delete_team league_db 7) = league_db"
    using delete_team_cascade [of 7 league_db]
    by (simp add: sqlite_values league_db_def n1_def n2_def)
  have 2: "delete_team league_db 9223372036854775808 =
             (Internal_Server_Error OverflowError, league_db)"
    using delete_team_cascade [of 9223372036854775808 league_db]
    by (simp add: sqlite_values)
  have 3: "delete_team league_db 1 =
     (Redirect_remove_teams,
      league_db\<lparr>players :=
          [\<lparr>PlayerID = 3, Name = ''n3'', Age = 30, Height = 72,
            player.TeamID = Some 2, player.PositionID = Some 1, Version = 1\<rparr>,
           \<lparr>PlayerID = 4, Name = ''n4'', Age = 31, Height = 71,
            player.TeamID = None, player.PositionID = None, Version = 1\<rparr>],
        teams := [\<lparr>team.TeamID = 2, TeamName = ''B''\<rparr>]\<rparr>)"
    by (simp add: delete_team_def sqlite_values league_db_def n1_def n2_def)
  from 1 2 3 show ?thesis by simp
qed

section \<open>Add team\<close>

text \<open>
  C9. For every existing team, a validated submission of its name again fails with
  \<^verbatim>\<open>IntegrityError\<close> and leaves the store as it was; whatever the request, submitting that
  name adds no row.
\<close>

theorem add_team_duplicate_name:
  "t \<in> set (teams d) \<Longrightarrow>
   (TeamForm_validate req = Some (TeamName t) \<longrightarrow>
      add_team d req = (Internal_Server_Error IntegrityError, d)) \<and>
   (form req ''team_name'' = Some (TeamName t) \<longrightarrow> snd (add_team d req) = d)"
  by (auto simp: add_team_def TeamForm_validate_def input_required_def
           split: option.splits if_splits)

theorem add_team_duplicate_name_witness:
  "add_team scenario_db (post [(''team_name'', ''A'')]) =
     (Internal_Server_Error IntegrityError, scenario_db)"
  using add_team_duplicate_name
          [of "\<lparr>team.TeamID = 1, TeamName = ''A''\<rparr>" scenario_db "post [(''team_name'', ''A'')]"]
  by (simp add: scenario_db_def TeamForm_validate_def post_def input_required_def)

section \<open>Add player\<close>

text \<open>
  C10. Every player that \<^verbatim>\<open>add_player\<close> adds has a team reference and a position
  reference that are not NULL and are the ids of a team and a position of the store.
\<close>

theorem add_player_references:
  "p \<in> set (players (snd (add_player P d req))) \<Longrightarrow> p \<notin> set (players d) \<Longrightarrow>
   (\<exists>t \<in> set (teams d). player.TeamID p = Some (team.TeamID t)) \<and>
   (\<exists>q \<in> set (positions d). player.PositionID p = Some (position.PositionID q))"
  by (auto simp: add_player_def PlayerForm_validate_def select_field_def Let_def
           split: option.splits if_splits sum.splits prod.splits pyfloat.splits)

theorem add_player_references_witness:
  "add_player example_python scenario_db (post n3_form) =
     (Redirect_index, scenario_db\<lparr>players := [n1, n2, n3]\<rparr>) \<and>
   player.TeamID n3 = Some 1 \<and> player.PositionID n3 = Some 2"
proof -
  have r: "add_player example_python scenario_db (post n3_form) =
             (Redirect_index, scenario_db\<lparr>players := [n1, n2, n3]\<rparr>)"
    by (simp add: add_player_def PlayerForm_validate_def post_def n3_form_def
          input_required_def field_of_def select_field_def example_values sqlite_values
          scenario_db_def next_rowid_def version_id_generator_def n1_def n2_def n3_def)
  have "n3 \<in> set (players (snd (add_player example_python scenario_db (post n3_form))))"
    by (simp add: r)
  moreover have "n3 \<notin> set (players scenario_db)"
    by (simp add: scenario_db_def n1_def n2_def n3_def)
  ultimately show ?thesis
    using add_player_references [of n3 example_python scenario_db "post n3_form"] r
    by (simp add: n3_def)
qed

section \<open>Edit player: the commit\<close>

lemma find_map_preserved:
  "(\<And>r. P (g r) = P r) \<Longrightarrow> find P (map g xs) = map_option g (find P xs)"
  by (induction xs) simp_all

lemma query_get_SomeD:
  "query_get rows player_id = Some p \<Longrightarrow> p \<in> set rows \<and> PlayerID p = player_id"
  by (auto simp: query_get_def find_Some_iff)

lemma PlayerID_update_row [simp]: "PlayerID (update_row loaded new r) = PlayerID r"
  by (simp add: update_row_def)

lemma Version_update_row [simp]:
  "Version (update_row loaded new r) = Version loaded + 1"
  by (simp add: update_row_def version_id_generator_def)

lemma query_get_updated:
  assumes "query_get rows player_id = Some p"
  shows "query_get (map (\<lambda>r. if where_pk_version p r then update_row p new r else r) rows)
           player_id = Some (update_row p new p)"
proof -
  let ?g = "\<lambda>r. if where_pk_version p r then update_row p new r else r"
  have "query_get (map ?g rows) player_id = map_option ?g (query_get rows player_id)"
    unfolding query_get_def by (simp add: find_map_preserved)
  then show ?thesis
    by (simp add: assms where_pk_version_def)
qed

lemma update_row_settled:
  assumes "new_Height new \<noteq> NaN"
  shows "\<not> net_change (update_row p new p) new"
  using assms by (cases "new_Height new") (auto simp: net_change_def update_row_def)

lemma update_row_values:
  assumes "new_Height new = Float h"
  shows "update_row p new p =
           p\<lparr>Name := new_Name new, Age := new_Age new, Height := h,
             player.TeamID := Some (new_TeamID new),
             player.PositionID := Some (new_PositionID new),
             Version := Version p + 1\<rparr>"
  using assms by (simp add: update_row_def version_id_generator_def)

text \<open>The four outcomes of the commit, in the order in which the code meets them.\<close>

lemma commit_update_cases:
  "commit_update d p new =
     (if \<not> net_change p new then Inr d
      else if \<not> list_all sqlite_int (bound_ints p new) then Inl OverflowError
      else if new_Height new = NaN \<and> filter (where_pk_version p) (players d) \<noteq> []
           then Inl IntegrityError
      else if length (filter (where_pk_version p) (players d)) \<noteq> 1 then Inl StaleDataError
      else Inr (d\<lparr>players :=
                   map (\<lambda>r. if where_pk_version p r then update_row p new r else r)
                     (players d)\<rparr>))"
  by (simp add: commit_update_def)

lemma commit_update_written:
  assumes "commit_update d p new = Inr d'" and "net_change p new"
  shows "d' = d\<lparr>players := map (\<lambda>r. if where_pk_version p r then update_row p new r else r)
                              (players d)\<rparr>"
    and "length (filter (where_pk_version p) (players d)) = 1"
    and "new_Height new \<noteq> NaN"
    and "list_all sqlite_int (bound_ints p new)"
proof -
  note c = assms(1) [unfolded commit_update_cases]
  show r: "list_all sqlite_int (bound_ints p new)"
    using c assms(2) by (simp split: if_splits)
  show l: "length (filter (where_pk_version p) (players d)) = 1"
    using c assms(2) by (simp split: if_splits)
  then have "filter (where_pk_version p) (players d) \<noteq> []"
    by auto
  then show n: "new_Height new \<noteq> NaN"
    using c assms(2) r by (simp split: if_splits)
  show "d' = d\<lparr>players := map (\<lambda>r. if where_pk_version p r then update_row p new r else r)
                              (players d)\<rparr>"
    using c assms(2) r l n by (simp split: if_splits)
qed

lemma commit_update_same:
  assumes "commit_update d p new = Inr d'" and "p \<in> set (players d)"
  shows "d' = d \<longleftrightarrow> \<not> net_change p new"
proof
  assume e: "d' = d"
  show "\<not> net_change p new"
  proof
    assume n: "net_change p new"
    let ?g = "\<lambda>r. if where_pk_version p r then update_row p new r else r"
    have "players d' = map ?g (players d)"
      by (subst commit_update_written(1) [OF assms(1) n]) simp
    then have "map ?g (players d) = map id (players d)"
      using e by simp
    then have "?g p = id p"
      using assms(2) unfolding map_eq_conv by blast
    then have "Version (update_row p new p) = Version p"
      by (simp add: where_pk_version_def)
    then show False by simp
  qed
next
  assume "\<not> net_change p new"
  then have "commit_update d p new = Inr d"
    by (simp add: commit_update_def)
  with assms(1) show "d' = d" by simp
qed

lemma commit_update_stale:
  assumes "\<forall>r \<in> set (players d). PlayerID r = PlayerID player \<longrightarrow> Version r \<noteq> Version player"
  shows "commit_update d player new =
           (if \<not> net_change player new then Inr d
            else if \<not> list_all sqlite_int (bound_ints player new) then Inl OverflowError
            else Inl StaleDataError)"
proof -
  have "filter (where_pk_version player) (players d) = []"
    using assms by (auto simp: filter_empty_conv where_pk_version_def)
  then show ?thesis
    by (simp add: commit_update_def)
qed

lemma filter_key_unique:
  "distinct (map f xs) \<Longrightarrow> x \<in> set xs \<Longrightarrow> filter (\<lambda>r. f r = f x) xs = [x]"
proof (induction xs)
  case Nil
  then show ?case by simp
next
  case (Cons y ys)
  show ?case
  proof (cases "y = x")
    case True
    have "\<forall>r \<in> set ys. f r \<noteq> f x"
      using Cons.prems(1) True by (force simp: image_iff)
    then have "filter (\<lambda>r. f r = f x) ys = []"
      by (simp add: filter_empty_conv)
    with True show ?thesis by simp
  next
    case False
    then have "x \<in> set ys" using Cons.prems(2) by simp
    moreover have "f y \<noteq> f x"
      using Cons.prems(1) \<open>x \<in> set ys\<close> by (force simp: image_iff)
    ultimately show ?thesis
      using Cons by simp
  qed
qed

lemma rowcount_one:
  assumes "distinct (map PlayerID rows)" and "p \<in> set rows"
  shows "filter (where_pk_version p) rows = [p]"
proof -
  have "filter (where_pk_version p) rows =
          filter (\<lambda>r. Version r = Version p) (filter (\<lambda>r. PlayerID r = PlayerID p) rows)"
    by (auto simp: where_pk_version_def intro!: filter_cong)
  also have "\<dots> = [p]"
    by (simp add: filter_key_unique [OF assms])
  finally show ?thesis .
qed

section \<open>Edit player: the route\<close>

lemma edit_player_found:
  assumes "sqlite_int player_id" and "query_get (players d) player_id = Some p"
    and "request_method req = POST"
  shows "edit_player P d player_id req =
           (case try_bind (assigned P req) (commit_update d p) of
              Inr d' \<Rightarrow> (Redirect_index, d')
            | Inl e \<Rightarrow> (Redirect_edit_player player_id e, d))"
  using assms by (simp add: edit_player_def edit_player_loaded_def edit_player_try_def)

lemma edit_player_success:
  assumes "edit_player P d player_id req = (Redirect_index, d')"
  shows "\<exists>p new. sqlite_int player_id \<and> request_method req = POST \<and>
                  query_get (players d) player_id = Some p \<and> assigned P req = Inr new \<and>
                  commit_update d p new = Inr d'"
  using assms
  by (auto simp: edit_player_def edit_player_loaded_def edit_player_try_def try_bind_def
           split: option.splits if_splits sum.splits)

lemma edit_player_rejected:
  assumes "sqlite_int player_id" and "query_get (players d) player_id = Some p"
    and "request_method req = POST" and "assigned P req = Inl e"
  shows "edit_player P d player_id req = (Redirect_edit_player player_id e, d)"
  using assms by (simp add: edit_player_found try_bind_def)

lemma edit_player_committed:
  assumes "sqlite_int player_id" and "query_get (players d) player_id = Some p"
    and "request_method req = POST" and "assigned P req = Inr new"
  shows "edit_player P d player_id req =
           (case commit_update d p new of
              Inr d' \<Rightarrow> (Redirect_index, d')
            | Inl e \<Rightarrow> (Redirect_edit_player player_id e, d))"
  using assms by (simp add: edit_player_found try_bind_def)

lemma edit_player_failure_unchanged:
  "fst (edit_player P d player_id req) \<noteq> Redirect_index \<Longrightarrow>
   snd (edit_player P d player_id req) = d"
  by (auto simp: edit_player_def edit_player_loaded_def split: option.splits sum.splits)

lemma assigned_missing:
  assumes "form req ''name'' = None \<or> form req ''age'' = None \<or> form req ''height'' = None \<or>
           form req ''team'' = None \<or> form req ''position'' = None"
  shows "\<exists>e. assigned P req = Inl e"
proof -
  have "assigned P req = Inr new \<Longrightarrow> False" for new
    using assms
    by (auto simp: assigned_def try_bind_def getitem_def split: sum.splits option.splits)
  then show ?thesis
    by (cases "assigned P req") auto
qed

lemma assigned_values:
  assumes "form req ''name'' = Some name"
    and "form req ''age'' = Some a" and "int_of_str P a = Some age"
    and "form req ''height'' = Some h" and "float_of_str P h = Some height"
    and "form req ''team'' = Some t" and "int_of_str P t = Some team"
    and "form req ''position'' = Some q" and "int_of_str P q = Some position"
  shows "assigned P req =
           Inr \<lparr>new_Name = name, new_Age = age, new_Height = height,
                new_TeamID = team, new_PositionID = position\<rparr>"
  using assms by (simp add: assigned_def try_bind_def getitem_def py_int_def py_float_def)

lemma assigned_invalid_age:
  "form req ''name'' = Some name \<Longrightarrow> form req ''age'' = Some a \<Longrightarrow> int_of_str P a = None \<Longrightarrow>
   assigned P req = Inl ValueError"
  by (simp add: assigned_def try_bind_def getitem_def py_int_def)

lemma assigned_invalid_height:
  "form req ''name'' = Some name \<Longrightarrow> form req ''age'' = Some a \<Longrightarrow>
   int_of_str P a = Some age \<Longrightarrow> form req ''height'' = Some h \<Longrightarrow>
   float_of_str P h = None \<Longrightarrow> assigned P req = Inl ValueError"
  by (simp add: assigned_def try_bind_def getitem_def py_int_def py_float_def)

lemma edit_player_again:
  assumes "edit_player P d player_id req = (Redirect_index, d')"
  shows "edit_player P d' player_id req = (Redirect_index, d')"
proof -
  from edit_player_success [OF assms] obtain p new where
    r: "sqlite_int player_id" and m: "request_method req = POST" and
    p: "query_get (players d) player_id = Some p" and a: "assigned P req = Inr new" and
    c: "commit_update d p new = Inr d'" by blast
  show ?thesis
  proof (cases "net_change p new")
    case False
    then have "d' = d"
      using c by (simp add: commit_update_def)
    with assms show ?thesis by simp
  next
    case True
    note w = commit_update_written [OF c True]
    have q: "query_get (players d') player_id = Some (update_row p new p)"
      by (subst w(1)) (simp add: query_get_updated [OF p])
    have "commit_update d' (update_row p new p) new = Inr d'"
      using update_row_settled [OF w(3)] by (simp add: commit_update_def)
    then show ?thesis
      by (simp add: edit_player_committed [OF r q m a])
  qed
qed

lemma edit_player_sequential_not_stale:
  assumes "distinct (map PlayerID (players d))"
  shows "fst (edit_player P d player_id req) \<noteq> Redirect_edit_player player_id StaleDataError"
proof (cases "sqlite_int player_id \<and> request_method req = POST")
  case False
  then show ?thesis
    by (auto simp: edit_player_def edit_player_loaded_def split: option.splits)
next
  case True
  show ?thesis
  proof (cases "query_get (players d) player_id")
    case None
    then show ?thesis by (simp add: edit_player_def)
  next
    case (Some p)
    have "p \<in> set (players d)"
      using query_get_SomeD [OF Some] by simp
    then have "commit_update d p new \<noteq> Inl StaleDataError" for new
      using rowcount_one [OF assms] by (simp add: commit_update_def)
    moreover have "assigned P req \<noteq> Inl StaleDataError"
      by (auto simp: assigned_def try_bind_def getitem_def py_int_def py_float_def
            split: sum.splits option.splits)
    ultimately show ?thesis
      using True Some
      by (auto simp: edit_player_found try_bind_def split: sum.splits)
  qed
qed

section \<open>Edit player: evaluations\<close>

lemma edit_n1_age_21:
  "edit_player example_python scenario_db 1 (post ((''version'', ''1'') # n1_edit ''21'' ''1'')) =
     (Redirect_index, scenario_db\<lparr>players := [n1\<lparr>Age := 21, Version := 2\<rparr>, n2]\<rparr>)"
  by (simp add: route_defs scenario_db_def n1_def n2_def n1_edit_def example_values
        sqlite_values)

lemma edit_n1_age_21_again:
  "edit_player example_python (scenario_db\<lparr>players := [n1\<lparr>Age := 21, Version := 2\<rparr>, n2]\<rparr>) 1
     (post ((''version'', ''1'') # n1_edit ''21'' ''1'')) =
     (Redirect_index, scenario_db\<lparr>players := [n1\<lparr>Age := 21, Version := 2\<rparr>, n2]\<rparr>)"
  by (simp add: route_defs scenario_db_def n1_def n2_def n1_edit_def example_values
        sqlite_values)

lemma edit_n1_age_23_stale_token:
  "edit_player example_python (scenario_db\<lparr>players := [n1\<lparr>Age := 21, Version := 2\<rparr>, n2]\<rparr>) 1
     (post ((''version'', ''1'') # n1_edit ''23'' ''1'')) =
     (Redirect_index, scenario_db\<lparr>players := [n1\<lparr>Age := 23, Version := 3\<rparr>, n2]\<rparr>)"
  by (simp add: route_defs scenario_db_def n1_def n2_def n1_edit_def example_values
        sqlite_values)

lemma edit_n1_same:
  "edit_player example_python scenario_db 1 (post n1_form) = (Redirect_index, scenario_db)"
  by (simp add: route_defs scenario_db_def n1_def n1_form_def example_values sqlite_values)

lemma edit_n1_age_21_plain:
  "edit_player example_python scenario_db 1 (post (n1_edit ''21'' ''1'')) =
     (Redirect_index, scenario_db\<lparr>players := [n1\<lparr>Age := 21, Version := 2\<rparr>, n2]\<rparr>)"
  by (simp add: route_defs scenario_db_def n1_def n2_def n1_edit_def example_values
        sqlite_values)

lemma edit_n1_name_only:
  "edit_player example_python scenario_db 1 (post [(''name'', ''renamed'')]) =
     (Redirect_edit_player 1 (BadRequestKeyError ''age''), scenario_db)"
  by (simp add: route_defs scenario_db_def n1_def n2_def sqlite_values)

lemma edit_n1_large_age:
  "edit_player example_python scenario_db 1 (post (n1_edit ''9223372036854775808'' ''1'')) =
     (Redirect_edit_player 1 OverflowError, scenario_db)"
  by (simp add: route_defs scenario_db_def n1_def n2_def n1_edit_def example_values
        sqlite_values)

lemma edit_n1_team_999:
  "edit_player example_python scenario_db 1 (post (n1_edit ''20'' ''999'')) =
     (Redirect_index,
      scenario_db\<lparr>players := [n1\<lparr>player.TeamID := Some 999, Version := 2\<rparr>, n2]\<rparr>)"
  by (simp add: route_defs scenario_db_def n1_def n2_def n1_edit_def example_values
        sqlite_values)


section \<open>Edit player: version check\<close>

text \<open>
  The route reads no version from the request. The first update of n1 succeeds and
  leaves version 2; the same request again is accepted, and so is a request that changes
  the age again: both carry the token 1, which no longer is the stored version.
\<close>

theorem edit_player_stale_token_counterexample:
  "edit_player example_python scenario_db 1
     (post ((''version'', ''1'') # n1_edit ''21'' ''1'')) =
     (Redirect_index, scenario_db\<lparr>players := [n1\<lparr>Age := 21, Version := 2\<rparr>, n2]\<rparr>) \<and>
   edit_player example_python (scenario_db\<lparr>players := [n1\<lparr>Age := 21, Version := 2\<rparr>, n2]\<rparr>) 1
     (post ((''version'', ''1'') # n1_edit ''21'' ''1'')) =
     (Redirect_index, scenario_db\<lparr>players := [n1\<lparr>Age := 21, Version := 2\<rparr>, n2]\<rparr>) \<and>
   edit_player example_python (scenario_db\<lparr>players := [n1\<lparr>Age := 21, Version := 2\<rparr>, n2]\<rparr>) 1
     (post ((''version'', ''1'') # n1_edit ''23'' ''1'')) =
     (Redirect_index, scenario_db\<lparr>players := [n1\<lparr>Age := 23, Version := 3\<rparr>, n2]\<rparr>)"
  using edit_n1_age_21 edit_n1_age_21_again edit_n1_age_23_stale_token by simp

text \<open>
  C1, amended. The version that is compared is the one loaded in the same request. When
  no row has the loaded player's id with the loaded version any more (another request
  committed in between), the store is left unchanged whatever the request; an exception
  of the assignments is reported as such; a POST whose assignments change a column is
  answered with \<^verbatim>\<open>OverflowError\<close> when an integer it binds is outside 64 bits and with
  \<^verbatim>\<open>StaleDataError\<close> otherwise; a POST without a net change is accepted. And a request that
  was accepted is accepted again when it is repeated, and then writes nothing.
\<close>

theorem edit_player_stale_version:
  assumes "\<forall>r \<in> set (players d). PlayerID r = PlayerID player \<longrightarrow> Version r \<noteq> Version player"
  shows
  "snd (edit_player_loaded P d player_id player req) = d \<and>
   (request_method req = POST \<and> assigned P req = Inl e \<longrightarrow>
      edit_player_loaded P d player_id player req = (Redirect_edit_player player_id e, d)) \<and>
   (request_method req = POST \<and> assigned P req = Inr new \<and> \<not> net_change player new \<longrightarrow>
      edit_player_loaded P d player_id player req = (Redirect_index, d)) \<and>
   (request_method req = POST \<and> assigned P req = Inr new \<and> net_change player new \<and>
    \<not> list_all sqlite_int (bound_ints player new) \<longrightarrow>
      edit_player_loaded P d player_id player req =
        (Redirect_edit_player player_id OverflowError, d)) \<and>
   (request_method req = POST \<and> assigned P req = Inr new \<and> net_change player new \<and>
    list_all sqlite_int (bound_ints player new) \<longrightarrow>
      edit_player_loaded P d player_id player req =
        (Redirect_edit_player player_id StaleDataError, d)) \<and>
   (edit_player P d0 player_id req = (Redirect_index, d1) \<longrightarrow>
      edit_player P d1 player_id req = (Redirect_index, d1))"
proof -
  note c = commit_update_stale [OF assms]
  have "snd (edit_player_loaded P d player_id player req) = d"
    by (auto simp: edit_player_loaded_def edit_player_try_def try_bind_def c split: sum.splits)
  moreover have "request_method req = POST \<and> assigned P req = Inl e \<longrightarrow>
      edit_player_loaded P d player_id player req = (Redirect_edit_player player_id e, d)"
    by (simp add: edit_player_loaded_def edit_player_try_def try_bind_def)
  moreover have "request_method req = POST \<and> assigned P req = Inr new \<and>
      \<not> net_change player new \<longrightarrow>
      edit_player_loaded P d player_id player req = (Redirect_index, d)"
    by (simp add: edit_player_loaded_def edit_player_try_def try_bind_def c)
  moreover have "request_method req = POST \<and> assigned P req = Inr new \<and>
      net_change player new \<and> \<not> list_all sqlite_int (bound_ints player new) \<longrightarrow>
      edit_player_loaded P d player_id player req =
        (Redirect_edit_player player_id OverflowError, d)"
    by (simp add: edit_player_loaded_def edit_player_try_def try_bind_def c)
  moreover have "request_method req = POST \<and> assigned P req = Inr new \<and>
      net_change player new \<and> list_all sqlite_int (bound_ints player new) \<longrightarrow>
      edit_player_loaded P d player_id player req =
        (Redirect_edit_player player_id StaleDataError, d)"
    by (simp add: edit_player_loaded_def edit_player_try_def try_bind_def c)
  moreover have "edit_player P d0 player_id req = (Redirect_index, d1) \<longrightarrow>
      edit_player P d1 player_id req = (Redirect_index, d1)"
    using edit_player_again by blast
  ultimately show ?thesis by blast
qed

theorem edit_player_stale_version_witness:
  "query_get (players scenario_db) 1 = Some n1 \<and>
   edit_player_loaded example_python
     (scenario_db\<lparr>players := [n1\<lparr>Age := 21, Version := 2\<rparr>, n2]\<rparr>) 1 n1
     (post (n1_edit ''23'' ''1'')) =
     (Redirect_edit_player 1 StaleDataError,
      scenario_db\<lparr>players := [n1\<lparr>Age := 21, Version := 2\<rparr>, n2]\<rparr>) \<and>
   edit_player example_python (scenario_db\<lparr>players := [n1\<lparr>Age := 21, Version := 2\<rparr>, n2]\<rparr>) 1
     (post (n1_edit ''21'' ''1'')) =
     (Redirect_index, scenario_db\<lparr>players := [n1\<lparr>Age := 21, Version := 2\<rparr>, n2]\<rparr>)"
proof -
  let ?d = "scenario_db\<lparr>players := [n1\<lparr>Age := 21, Version := 2\<rparr>, n2]\<rparr>"
  let ?new = "\<lparr>new_Name = ''n1'', new_Age = 23, new_Height = Float 70,
               new_TeamID = 1, new_PositionID = 1\<rparr> :: rat assignment"
  have a: "assigned example_python (post (n1_edit ''23'' ''1'')) = Inr ?new"
    by (simp add: assigned_def getitem_def try_bind_def post_def n1_edit_def example_values)
  have n: "net_change n1 ?new"
    by (simp add: net_change_def n1_def)
  have b: "list_all sqlite_int (bound_ints n1 ?new)"
    by (simp add: bound_ints_def n1_def version_id_generator_def sqlite_values)
  have s: "\<forall>r \<in> set (players ?d). PlayerID r = PlayerID n1 \<longrightarrow> Version r \<noteq> Version n1"
    by (simp add: n1_def n2_def)
  have m: "request_method (post (n1_edit ''23'' ''1'')) = POST"
    by (simp add: post_def)
  have q: "query_get (players scenario_db) 1 = Some n1"
    by (simp add: query_get_def scenario_db_def n1_def)
  have 1: "edit_player_loaded example_python ?d 1 n1 (post (n1_edit ''23'' ''1'')) =
             (Redirect_edit_player 1 StaleDataError, ?d)"
    using edit_player_stale_version [OF s, where P = example_python and player_id = 1
        and req = "post (n1_edit ''23'' ''1'')" and new = ?new and e = ValueError
        and ?d0.0 = scenario_db and ?d1.0 = ?d] a n b m
    by simp
  have 2: "edit_player example_python ?d 1 (post (n1_edit ''21'' ''1'')) = (Redirect_index, ?d)"
    using edit_player_stale_version [OF s, where P = example_python and player_id = 1
        and req = "post (n1_edit ''21'' ''1'')" and new = ?new and e = ValueError
        and ?d0.0 = scenario_db and ?d1.0 = ?d] edit_n1_age_21_plain
    by simp
  from q 1 2 show ?thesis by simp
qed

section \<open>Edit player: version increments\<close>

lemma edit_player_changed:
  assumes s: "edit_player P d player_id req = (Redirect_index, d')" and ne: "d' \<noteq> d"
  shows "(\<exists>p p'. query_get (players d) player_id = Some p \<and>
               query_get (players d') player_id = Some p' \<and>
               Version p' = Version p + 1) \<and>
      length (players d') = length (players d) \<and>
      (\<forall>i < length (players d).
         PlayerID (players d ! i) \<noteq> player_id \<longrightarrow> players d' ! i = players d ! i) \<and>
      teams d' = teams d \<and> positions d' = positions d"
proof -
  from edit_player_success [OF s] obtain p new where
    p: "query_get (players d) player_id = Some p" and
    c: "commit_update d p new = Inr d'" by blast
  have mem: "p \<in> set (players d)" and pid: "PlayerID p = player_id"
    using query_get_SomeD [OF p] by simp_all
  let ?g = "\<lambda>r. if where_pk_version p r then update_row p new r else r"
  have n: "net_change p new"
    using commit_update_same [OF c mem] ne by blast
  have d': "d' = d\<lparr>players := map ?g (players d)\<rparr>"
    using commit_update_written(1) [OF c n] .
  have "query_get (players d') player_id = Some (update_row p new p)"
    by (subst d') (simp add: query_get_updated [OF p])
  moreover have "\<forall>i < length (players d).
       PlayerID (players d ! i) \<noteq> player_id \<longrightarrow> players d' ! i = players d ! i"
    by (simp add: d' where_pk_version_def pid)
  ultimately show ?thesis
    using p by (simp add: d')
qed

lemma edit_player_no_net_change:
  assumes "sqlite_int player_id" and "query_get (players d) player_id = Some p"
    and "request_method req = POST" and "assigned P req = Inr new"
  shows "\<not> net_change p new \<Longrightarrow> edit_player P d player_id req = (Redirect_index, d)"
    and "net_change p new \<Longrightarrow> edit_player P d player_id req \<noteq> (Redirect_index, d)"
proof -
  note e = edit_player_committed [OF assms]
  show "edit_player P d player_id req = (Redirect_index, d)" if "\<not> net_change p new"
    using that by (simp add: e commit_update_def)
  show "edit_player P d player_id req \<noteq> (Redirect_index, d)" if n: "net_change p new"
  proof
    assume "edit_player P d player_id req = (Redirect_index, d)"
    then have "commit_update d p new = Inr d"
      by (simp add: e split: sum.splits)
    then show False
      using commit_update_same [of d p new d] query_get_SomeD [OF assms(2)] n by blast
  qed
qed

text \<open>
  An edit that submits the stored values of n1 succeeds and leaves the store, and with
  it the version of n1, as it was.
\<close>

theorem edit_player_no_change_counterexample:
  "query_get (players scenario_db) 1 = Some n1 \<and>
   edit_player example_python scenario_db 1 (post n1_form) = (Redirect_index, scenario_db)"
  using edit_n1_same by (simp add: query_get_def scenario_db_def n1_def)

text \<open>
  C2, amended. A successful edit that changes the store increases the version of the
  edited player by exactly 1, keeps every row of another id as it was, and keeps the
  teams and positions. An edit whose assigned values are the stored ones succeeds and
  writes nothing, so the version stays; and an edit whose assigned values differ from the
  stored ones never succeeds with the store left as it was.
\<close>

theorem edit_player_version_bump:
  "(edit_player P d player_id req = (Redirect_index, d') \<and> d' \<noteq> d \<longrightarrow>
      (\<exists>p p'. query_get (players d) player_id = Some p \<and>
               query_get (players d') player_id = Some p' \<and>
               Version p' = Version p + 1) \<and>
      length (players d') = length (players d) \<and>
      (\<forall>i < length (players d).
         PlayerID (players d ! i) \<noteq> player_id \<longrightarrow> players d' ! i = players d ! i) \<and>
      teams d' = teams d \<and> positions d' = positions d) \<and>
   (sqlite_int player_id \<and> query_get (players d) player_id = Some q \<and>
    request_method req = POST \<and> assigned P req = Inr new \<longrightarrow>
      (\<not> net_change q new \<longrightarrow> edit_player P d player_id req = (Redirect_index, d)) \<and>
      (net_change q new \<longrightarrow> edit_player P d player_id req \<noteq> (Redirect_index, d)))"
proof (intro conjI impI)
  assume a: "edit_player P d player_id req = (Redirect_index, d') \<and> d' \<noteq> d"
  note r = edit_player_changed [of P d player_id req d']
  show "\<exists>p p'. query_get (players d) player_id = Some p \<and>
               query_get (players d') player_id = Some p' \<and>
               Version p' = Version p + 1"
    using r a by simp
  show "length (players d') = length (players d)" using r a by simp
  show "\<forall>i < length (players d).
         PlayerID (players d ! i) \<noteq> player_id \<longrightarrow> players d' ! i = players d ! i"
    using r a by simp
  show "teams d' = teams d" using r a by simp
  show "positions d' = positions d" using r a by simp
next
  assume "sqlite_int player_id \<and> query_get (players d) player_id = Some q \<and>
    request_method req = POST \<and> assigned P req = Inr new" and "\<not> net_change q new"
  then show "edit_player P d player_id req = (Redirect_index, d)"
    using edit_player_no_net_change(1) by blast
next
  assume "sqlite_int player_id \<and> query_get (players d) player_id = Some q \<and>
    request_method req = POST \<and> assigned P req = Inr new" and "net_change q new"
  then show "edit_player P d player_id req \<noteq> (Redirect_index, d)"
    using edit_player_no_net_change(2) by blast
qed

theorem edit_player_version_bump_witness:
  "edit_player example_python scenario_db 1 (post (n1_edit ''21'' ''1'')) =
     (Redirect_index, scenario_db\<lparr>players := [n1\<lparr>Age := 21, Version := 2\<rparr>, n2]\<rparr>) \<and>
   query_get (players scenario_db) 1 = Some n1 \<and>
   query_get (players (scenario_db\<lparr>players := [n1\<lparr>Age := 21, Version := 2\<rparr>, n2]\<rparr>)) 1 =
     Some (n1\<lparr>Age := 21, Version := 2\<rparr>) \<and>
   Version (n1\<lparr>Age := 21, Version := 2\<rparr>) = Version n1 + 1 \<and>
   players (scenario_db\<lparr>players := [n1\<lparr>Age := 21, Version := 2\<rparr>, n2]\<rparr>) ! 1 =
     players scenario_db ! 1 \<and>
   edit_player example_python scenario_db 1 (post n1_form) = (Redirect_index, scenario_db)"
proof -
  let ?d = "scenario_db\<lparr>players := [n1\<lparr>Age := 21, Version := 2\<rparr>, n2]\<rparr>"
  let ?same = "\<lparr>new_Name = ''n1'', new_Age = 20, new_Height = Float 70,
                new_TeamID = 1, new_PositionID = 1\<rparr> :: rat assignment"
  have ne: "?d \<noteq> scenario_db"
    by (simp add: scenario_db_def n1_def)
  have q: "query_get (players scenario_db) 1 = Some n1"
    by (simp add: query_get_def scenario_db_def n1_def)
  have a: "assigned example_python (post n1_form) = Inr ?same"
    by (simp add: assigned_def getitem_def try_bind_def post_def n1_form_def example_values)
  have n: "\<not> net_change n1 ?same"
    by (simp add: net_change_def n1_def)
  have m: "request_method (post n1_form) = POST"
    by (simp add: post_def)
  have 1: "query_get (players ?d) 1 = Some (n1\<lparr>Age := 21, Version := 2\<rparr>) \<and>
           Version (n1\<lparr>Age := 21, Version := 2\<rparr>) = Version n1 + 1 \<and>
           players ?d ! 1 = players scenario_db ! 1"
    using edit_player_version_bump [where P = example_python and d = scenario_db
        and player_id = 1 and req = "post (n1_edit ''21'' ''1'')" and d' = ?d and q = n1
        and new = ?same] edit_n1_age_21_plain ne q
    by (simp add: scenario_db_def n1_def n2_def query_get_def)
  have 2: "edit_player example_python scenario_db 1 (post n1_form) =
             (Redirect_index, scenario_db)"
    using edit_player_version_bump [where P = example_python and d = scenario_db
        and player_id = 1 and req = "post n1_form" and d' = ?d and q = n1 and new = ?same]
      q a n m sqlite_values
    by simp
  from 1 2 q edit_n1_age_21_plain show ?thesis by simp
qed

section \<open>Edit player: the fields\<close>

lemma bound_ints_subset:
  "set (bound_ints p new) \<subseteq>
     {new_Age new, new_TeamID new, new_PositionID new, Version p + 1, PlayerID p, Version p}"
  by (auto simp: bound_ints_def version_id_generator_def)

lemma commit_update_row:
  assumes "distinct (map PlayerID (players d))"
    and "query_get (players d) player_id = Some p"
    and "new_Height new = Float h"
    and "list_all sqlite_int
           [new_Age new, new_TeamID new, new_PositionID new, Version p + 1, PlayerID p, Version p]"
  shows "\<exists>d' v. commit_update d p new = Inr d' \<and>
                 query_get (players d') player_id =
                   Some (p\<lparr>Name := new_Name new, Age := new_Age new, Height := h,
                           player.TeamID := Some (new_TeamID new),
                           player.PositionID := Some (new_PositionID new),
                           Version := v\<rparr>)"
proof (cases "net_change p new")
  case False
  then have "p\<lparr>Name := new_Name new, Age := new_Age new, Height := h,
               player.TeamID := Some (new_TeamID new),
               player.PositionID := Some (new_PositionID new), Version := Version p\<rparr> = p"
    using assms(3) by (simp add: net_change_def)
  moreover have "commit_update d p new = Inr d"
    using False by (simp add: commit_update_def)
  ultimately show ?thesis
    using assms(2) by metis
next
  case True
  let ?g = "\<lambda>r. if where_pk_version p r then update_row p new r else r"
  have mem: "p \<in> set (players d)"
    using query_get_SomeD [OF assms(2)] by simp
  have "list_all sqlite_int (bound_ints p new)"
    using assms(4) bound_ints_subset [of p new] unfolding list_all_iff by auto
  then have c: "commit_update d p new = Inr (d\<lparr>players := map ?g (players d)\<rparr>)"
    using True rowcount_one [OF assms(1) mem] assms(3) by (simp add: commit_update_def)
  have "query_get (players (d\<lparr>players := map ?g (players d)\<rparr>)) player_id =
          Some (update_row p new p)"
    by (simp add: query_get_updated [OF assms(2)])
  with c show ?thesis
    unfolding update_row_values [OF assms(3)] by blast
qed

text \<open>
  A request that supplies only the name is rejected for the missing age, and the name is
  not changed. A request that supplies all five fields, the age \<open>2\<^sup>6\<^sup>3\<close>, is rejected by
  the database, and nothing is changed.
\<close>

theorem edit_player_partial_counterexample:
  "query_get (players scenario_db) 1 = Some n1 \<and> Name n1 = ''n1'' \<and>
   edit_player example_python scenario_db 1 (post [(''name'', ''renamed'')]) =
     (Redirect_edit_player 1 (BadRequestKeyError ''age''), scenario_db) \<and>
   int_of_str example_python ''9223372036854775808'' = Some 9223372036854775808 \<and>
   edit_player example_python scenario_db 1 (post (n1_edit ''9223372036854775808'' ''1'')) =
     (Redirect_edit_player 1 OverflowError, scenario_db)"
  using edit_n1_name_only edit_n1_large_age
  by (simp add: query_get_def scenario_db_def n1_def example_defs)

text \<open>
  C3, amended. The edit needs all five fields: a request that omits one of them is
  answered with an error and the store is unchanged. When all five are supplied and
  valid (\<^verbatim>\<open>int()\<close> accepts the age, the team and the position, \<^verbatim>\<open>float()\<close> gives a number
  for the height, these integers and the row's id and versions are within 64 bits, and
  primary keys are unique), the edit succeeds and the stored row has exactly the
  supplied name, age, height, team id and position id. When the assignments change a
  column and bind an integer outside 64 bits, the edit is answered with
  \<^verbatim>\<open>OverflowError\<close> and the store is unchanged.
\<close>

theorem edit_player_all_fields:
  assumes "query_get (players d) player_id = Some p" and "request_method req = POST"
    and "sqlite_int player_id"
  shows
  "(form req ''name'' = None \<or> form req ''age'' = None \<or> form req ''height'' = None \<or>
    form req ''team'' = None \<or> form req ''position'' = None \<longrightarrow>
      (\<exists>e. edit_player P d player_id req = (Redirect_edit_player player_id e, d))) \<and>
   (distinct (map PlayerID (players d)) \<and>
    form req ''name'' = Some name \<and>
    form req ''age'' = Some a \<and> int_of_str P a = Some age \<and>
    form req ''height'' = Some h \<and> float_of_str P h = Some (Float height) \<and>
    form req ''team'' = Some t \<and> int_of_str P t = Some team \<and>
    form req ''position'' = Some q \<and> int_of_str P q = Some position \<and>
    list_all sqlite_int [age, team, position, Version p + 1, Version p] \<longrightarrow>
      (\<exists>d' v. edit_player P d player_id req = (Redirect_index, d') \<and>
               query_get (players d') player_id =
                 Some (p\<lparr>Name := name, Age := age, Height := height,
                         player.TeamID := Some team, player.PositionID := Some position,
                         Version := v\<rparr>))) \<and>
   (assigned P req = Inr new \<and> net_change p new \<and>
    \<not> list_all sqlite_int (bound_ints p new) \<longrightarrow>
      edit_player P d player_id req = (Redirect_edit_player player_id OverflowError, d))"
proof (intro conjI impI)
  assume "form req ''name'' = None \<or> form req ''age'' = None \<or> form req ''height'' = None \<or>
    form req ''team'' = None \<or> form req ''position'' = None"
  from assigned_missing [OF this, of P] obtain e where "assigned P req = Inl e" by blast
  then have "edit_player P d player_id req = (Redirect_edit_player player_id e, d)"
    using assms by (simp add: edit_player_rejected)
  then show "\<exists>e. edit_player P d player_id req = (Redirect_edit_player player_id e, d)"
    by blast
next
  let ?new = "\<lparr>new_Name = name, new_Age = age, new_Height = Float height,
               new_TeamID = team, new_PositionID = position\<rparr>"
  assume h: "distinct (map PlayerID (players d)) \<and>
    form req ''name'' = Some name \<and>
    form req ''age'' = Some a \<and> int_of_str P a = Some age \<and>
    form req ''height'' = Some h \<and> float_of_str P h = Some (Float height) \<and>
    form req ''team'' = Some t \<and> int_of_str P t = Some team \<and>
    form req ''position'' = Some q \<and> int_of_str P q = Some position \<and>
    list_all sqlite_int [age, team, position, Version p + 1, Version p]"
  then have a: "assigned P req = Inr ?new"
    using assigned_values [of req name a P age h "Float height" t team q position] by simp
  have "PlayerID p = player_id"
    using query_get_SomeD [OF assms(1)] by simp
  then have b: "list_all sqlite_int
      [new_Age ?new, new_TeamID ?new, new_PositionID ?new, Version p + 1, PlayerID p, Version p]"
    using h assms(3) by simp
  from h have u: "distinct (map PlayerID (players d))" by simp
  from commit_update_row [OF u assms(1) _ b, of height]
  obtain d' v where c: "commit_update d p ?new = Inr d'"
    and g: "query_get (players d') player_id =
              Some (p\<lparr>Name := name, Age := age, Height := height,
                      player.TeamID := Some team, player.PositionID := Some position,
                      Version := v\<rparr>)"
    by auto
  have "edit_player P d player_id req = (Redirect_index, d')"
    using c by (simp add: edit_player_committed [OF assms(3) assms(1) assms(2) a])
  with g show "\<exists>d' v. edit_player P d player_id req = (Redirect_index, d') \<and>
               query_get (players d') player_id =
                 Some (p\<lparr>Name := name, Age := age, Height := height,
                         player.TeamID := Some team, player.PositionID := Some position,
                         Version := v\<rparr>)" by blast
next
  assume "assigned P req = Inr new \<and> net_change p new \<and>
    \<not> list_all sqlite_int (bound_ints p new)"
  then show "edit_player P d player_id req = (Redirect_edit_player player_id OverflowError, d)"
    by (simp add: edit_player_committed [OF assms(3) assms(1) assms(2)] commit_update_def)
qed

theorem edit_player_all_fields_witness:
  "edit_player example_python scenario_db 1 (post [(''name'', ''renamed'')]) =
     (Redirect_edit_player 1 (BadRequestKeyError ''age''), scenario_db) \<and>
   edit_player example_python scenario_db 1 (post (n1_edit ''21'' ''1'')) =
     (Redirect_index, scenario_db\<lparr>players := [n1\<lparr>Age := 21, Version := 2\<rparr>, n2]\<rparr>) \<and>
   query_get (players (scenario_db\<lparr>players := [n1\<lparr>Age := 21, Version := 2\<rparr>, n2]\<rparr>)) 1 =
     Some (n1\<lparr>Name := ''n1'', Age := 21, Height := 70, player.TeamID := Some 1,
             player.PositionID := Some 1, Version := 2\<rparr>) \<and>
   edit_player example_python scenario_db 1 (post (n1_edit ''9223372036854775808'' ''1'')) =
     (Redirect_edit_player 1 OverflowError, scenario_db)"
proof -
  let ?big = "9223372036854775808 :: int"
  let ?new = "\<lparr>new_Name = ''n1'', new_Age = ?big, new_Height = Float 70,
               new_TeamID = 1, new_PositionID = 1\<rparr> :: rat assignment"
  note T = edit_player_all_fields [where P = example_python and d = scenario_db
      and player_id = 1 and p = n1]
  have q: "query_get (players scenario_db) 1 = Some n1"
    by (simp add: query_get_def scenario_db_def n1_def)
  have m: "request_method (post xs) = POST" for xs
    by (simp add: post_def)
  have r: "sqlite_int 1"
    by (simp add: sqlite_values)
  have f: "form (post [(''name'', ''renamed'')]) ''age'' = None"
    by (simp add: post_def)
  have g: "form (post (n1_edit ''21'' ''1'')) ''name'' = Some ''n1''"
    "form (post (n1_edit ''21'' ''1'')) ''age'' = Some ''21''"
    "form (post (n1_edit ''21'' ''1'')) ''height'' = Some ''70.0''"
    "form (post (n1_edit ''21'' ''1'')) ''team'' = Some ''1''"
    "form (post (n1_edit ''21'' ''1'')) ''position'' = Some ''1''"
    by (simp_all add: post_def n1_edit_def)
  have i: "int_of_str example_python ''21'' = Some 21" "int_of_str example_python ''1'' = Some 1"
    "float_of_str example_python ''70.0'' = Some (Float 70)"
    by (simp_all add: example_defs)
  have u: "distinct (map PlayerID (players scenario_db))"
    by (simp add: scenario_db_def n1_def n2_def)
  have b: "list_all sqlite_int [21, 1, 1, Version n1 + 1, Version n1]"
    by (simp add: n1_def sqlite_values)
  have a: "assigned example_python (post (n1_edit ''9223372036854775808'' ''1'')) = Inr ?new"
    by (simp add: assigned_def getitem_def try_bind_def post_def n1_edit_def example_values)
  have n: "net_change n1 ?new" "\<not> list_all sqlite_int (bound_ints n1 ?new)"
    by (simp_all add: net_change_def bound_ints_def n1_def sqlite_values)
  have 1: "edit_player example_python scenario_db 1 (post [(''name'', ''renamed'')]) =
     (Redirect_edit_player 1 (BadRequestKeyError ''age''), scenario_db)"
    using T [where req = "post [(''name'', ''renamed'')]", OF q m r] f edit_n1_name_only
    by simp
  have 2: "query_get (players (scenario_db\<lparr>players := [n1\<lparr>Age := 21, Version := 2\<rparr>, n2]\<rparr>)) 1 =
     Some (n1\<lparr>Name := ''n1'', Age := 21, Height := 70, player.TeamID := Some 1,
             player.PositionID := Some 1, Version := 2\<rparr>)"
    using T [where req = "post (n1_edit ''21'' ''1'')" and name = "''n1''" and a = "''21''"
        and age = 21 and h = "''70.0''" and height = 70 and t = "''1''" and team = 1
        and q = "''1''" and position = 1 and new = ?new, OF q m r]
      g i u b edit_n1_age_21_plain
    by (simp add: query_get_def n1_def)
  have 3: "edit_player example_python scenario_db 1
             (post (n1_edit ''9223372036854775808'' ''1'')) =
           (Redirect_edit_player 1 OverflowError, scenario_db)"
    using T [where req = "post (n1_edit ''9223372036854775808'' ''1'')" and new = ?new,
        OF q m r]
      a n by simp
  from 1 2 3 edit_n1_age_21_plain show ?thesis by simp
qed

section \<open>Edit player: references\<close>

text \<open>
  C4. The store has the single team 1, and an edit that submits team 999 succeeds: the
  row is written with the dangling reference and the next version.
\<close>

theorem edit_player_unknown_team:
  "map team.TeamID (teams scenario_db) = [1] \<and>
   edit_player example_python scenario_db 1 (post (n1_edit ''20'' ''999'')) =
     (Redirect_index,
      scenario_db\<lparr>players := [n1\<lparr>player.TeamID := Some 999, Version := 2\<rparr>, n2]\<rparr>)"
  using edit_n1_team_999 by (simp add: scenario_db_def)

section \<open>Primary keys\<close>

text \<open>The routes keep the primary key of the player table unique.\<close>

lemma next_rowid_fresh: "next_rowid ids \<notin> set ids"
proof (cases "ids = []")
  case True
  then show ?thesis by simp
next
  case False
  have "x \<le> Max (set ids)" if "x \<in> set ids" for x
    using that by simp
  then have "Max (set ids) + 1 \<notin> set ids"
    by fastforce
  with False show ?thesis by (simp add: next_rowid_def)
qed

lemma add_player_keeps_keys:
  assumes "distinct (map PlayerID (players d))"
  shows "distinct (map PlayerID (players (snd (add_player P d req))))"
  using assms next_rowid_fresh [of "map PlayerID (players d)"]
  by (auto simp: add_player_def Let_def split: option.splits pyfloat.splits)

lemma map_PlayerID_update:
  "map PlayerID (map (\<lambda>r. if where_pk_version p r then update_row p new r else r) rows) =
   map PlayerID rows"
  by (induction rows) simp_all

lemma commit_update_keeps_keys:
  "commit_update d p new = Inr d' \<Longrightarrow> map PlayerID (players d') = map PlayerID (players d)"
  by (auto simp: commit_update_def map_PlayerID_update split: if_splits)

lemma edit_player_keeps_keys:
  "map PlayerID (players (snd (edit_player P d player_id req))) = map PlayerID (players d)"
  by (auto simp: edit_player_def edit_player_loaded_def edit_player_try_def try_bind_def
        commit_update_keeps_keys split: option.splits sum.splits)

lemma delete_team_keeps_keys:
  "distinct (map PlayerID (players d)) \<Longrightarrow>
   distinct (map PlayerID (players (snd (delete_team d team_id))))"
  by (simp add: delete_team_def distinct_map_filter)


end
